theory Spec2Isabelle
  imports
    Main
    "HOL-Library.Char_ord"
    "HOL-Library.List_Lexorder"
    "HOL-Library.Product_Lexorder"
    "HOL-Library.Log_Nat"
    "HOL-Library.AList"
    "HOL-Library.Multiset"
begin

section \<open>Python values\<close>

subsection \<open>Floats\<close>

text \<open>
  A Python float is an IEEE binary64 value. Finite values are kept as the rational they
  denote; the two infinities and NaN are separate constructors. The sign of zero is not
  kept (\<open>-0.0\<close> and \<open>0.0\<close> are both \<open>Finite 0\<close>; Python's \<open>==\<close> does not
  tell them apart either).
\<close>

datatype pyfloat = Finite rat | PosInf | NegInf | NaN

definition pow2 :: "int \<Rightarrow> rat" where
  "pow2 e = (if 0 \<le> e then 2 ^ nat e else 1 / 2 ^ nat (- e))"

definition round_half_even :: "rat \<Rightarrow> int" where
  "round_half_even r =
     (let f = \<lfloor>r\<rfloor>; d = r - of_int f
      in if d < 1 / 2 then f else if 1 / 2 < d then f + 1 else if even f then f else f + 1)"

text \<open>\<open>ilog2 x\<close> is \<open>\<lfloor>log\<^sub>2 x\<rfloor>\<close> for a positive rational \<open>x\<close>.\<close>

definition ilog2 :: "rat \<Rightarrow> int" where
  "ilog2 x =
     (let (p, q) = quotient_of x;
          d = bitlen p - bitlen q
      in if pow2 d \<le> x then d else d - 1)"

text \<open>
  Round-to-nearest, ties-to-even, onto binary64: 53 significant bits, least exponent of
  the unit in the last place \<open>-1074\<close>, overflow to an infinity from \<open>2^1024\<close> on.
\<close>

definition round_double :: "rat \<Rightarrow> pyfloat" where
  "round_double x =
     (if x = 0 then Finite 0
      else let a = \<bar>x\<bar>;
               q = max (ilog2 a - 52) (- 1074);
               y = of_int (round_half_even (a / pow2 q)) * pow2 q
           in if pow2 1024 \<le> y then (if 0 < x then PosInf else NegInf)
              else Finite (if 0 < x then y else - y))"

definition fneg :: "pyfloat \<Rightarrow> pyfloat" where
  "fneg x = (case x of Finite a \<Rightarrow> Finite (- a) | PosInf \<Rightarrow> NegInf | NegInf \<Rightarrow> PosInf | NaN \<Rightarrow> NaN)"

fun fadd :: "pyfloat \<Rightarrow> pyfloat \<Rightarrow> pyfloat" where
  "fadd (Finite a) (Finite b) = round_double (a + b)"
| "fadd NaN _ = NaN"
| "fadd _ NaN = NaN"
| "fadd PosInf NegInf = NaN"
| "fadd NegInf PosInf = NaN"
| "fadd PosInf _ = PosInf"
| "fadd NegInf _ = NegInf"
| "fadd (Finite a) PosInf = PosInf"
| "fadd (Finite a) NegInf = NegInf"

definition fsub :: "pyfloat \<Rightarrow> pyfloat \<Rightarrow> pyfloat" where
  "fsub x y = fadd x (fneg y)"

fun fmul :: "pyfloat \<Rightarrow> pyfloat \<Rightarrow> pyfloat" where
  "fmul (Finite a) (Finite b) = round_double (a * b)"
| "fmul NaN _ = NaN"
| "fmul _ NaN = NaN"
| "fmul (Finite a) PosInf = (if a = 0 then NaN else if 0 < a then PosInf else NegInf)"
| "fmul (Finite a) NegInf = (if a = 0 then NaN else if 0 < a then NegInf else PosInf)"
| "fmul PosInf (Finite b) = (if b = 0 then NaN else if 0 < b then PosInf else NegInf)"
| "fmul NegInf (Finite b) = (if b = 0 then NaN else if 0 < b then NegInf else PosInf)"
| "fmul PosInf PosInf = PosInf"
| "fmul NegInf NegInf = PosInf"
| "fmul PosInf NegInf = NegInf"
| "fmul NegInf PosInf = NegInf"

subsection \<open>Exceptions\<close>

datatype pyerror =
    AttributeError | TypeError | ValueError | OverflowError | IndexError | OSError
  | UnicodeEncodeError

text \<open>A statement that may raise, followed by the rest of the block.\<close>

definition and_then :: "'e + 'a \<Rightarrow> ('a \<Rightarrow> 'e + 'b) \<Rightarrow> 'e + 'b" where
  "and_then m f = (case m of Inl e \<Rightarrow> Inl e | Inr x \<Rightarrow> f x)"

subsection \<open>Values decoded from JSON\<close>

text \<open>
  What \<open>json.loads\<close> builds: \<open>None\<close>, \<open>bool\<close>, \<open>int\<close>, \<open>float\<close>, \<open>str\<close>,
  \<open>list\<close> and \<open>dict\<close> with \<open>str\<close> keys. A dict is an association list in insertion
  order; lookups take the first entry of a key. A \<open>str\<close> is the list of the bytes of
  its UTF-8 encoding, a lone surrogate (which \<open>json.loads\<close> lets through from an
  escape such as \<open>\ud83d\<close>) being the three bytes \<open>ED A0..BF 80..BF\<close> that the
  encoding gives it when surrogates are passed.
\<close>

datatype json =
    JNull
  | JBool bool
  | JInt int
  | JFloat pyfloat
  | JStr string
  | JList "json list"
  | JObj "(string \<times> json) list"

text \<open>Truth value of an object, as \<open>not x\<close>, \<open>x or y\<close> and \<open>if x\<close> test it.\<close>

fun truthy :: "json \<Rightarrow> bool" where
  "truthy JNull = False"
| "truthy (JBool b) = b"
| "truthy (JInt i) = (i \<noteq> 0)"
| "truthy (JFloat f) = (f \<noteq> Finite 0)"
| "truthy (JStr s) = (s \<noteq> [])"
| "truthy (JList xs) = (xs \<noteq> [])"
| "truthy (JObj kvs) = (kvs \<noteq> [])"

definition py_or :: "json \<Rightarrow> json \<Rightarrow> json" where
  "py_or a b = (if truthy a then a else b)"

text \<open>\<open>d.get(k, dflt)\<close> on a dict.\<close>

definition dict_get :: "(string \<times> json) list \<Rightarrow> string \<Rightarrow> json \<Rightarrow> json" where
  "dict_get kvs k dflt = (case map_of kvs k of None \<Rightarrow> dflt | Some v \<Rightarrow> v)"

text \<open>\<open>x.get(k, dflt)\<close> on any value: only a dict has the method.\<close>

definition py_get :: "json \<Rightarrow> string \<Rightarrow> json \<Rightarrow> pyerror + json" where
  "py_get x k dflt = (case x of JObj kvs \<Rightarrow> Inr (dict_get kvs k dflt) | _ \<Rightarrow> Inl AttributeError)"

subsection \<open>Builtins on strings\<close>

text \<open>
  \<open>str(x)\<close>, and \<open>int(s)\<close> and \<open>float(s)\<close> on a string, are Python builtins whose
  grammar (Unicode digits and spaces, \<open>repr\<close> of nested values) is not part of this
  program. They are parameters of the model: \<open>None\<close> from a parser is \<open>ValueError\<close>.
\<close>

record pylib =
  str_of :: "json \<Rightarrow> string"
  int_of_str :: "string \<Rightarrow> int option"
  float_of_str :: "string \<Rightarrow> pyfloat option"

subsection \<open>Conversions\<close>

definition int_of_float :: "pyfloat \<Rightarrow> pyerror + int" where
  "int_of_float f =
     (case f of
        Finite r \<Rightarrow> Inr (if 0 \<le> r then \<lfloor>r\<rfloor> else \<lceil>r\<rceil>)
      | NaN \<Rightarrow> Inl ValueError
      | _ \<Rightarrow> Inl OverflowError)"

definition float_of_int :: "int \<Rightarrow> pyerror + pyfloat" where
  "float_of_int i =
     (case round_double (of_int i) of Finite r \<Rightarrow> Inr (Finite r) | _ \<Rightarrow> Inl OverflowError)"

fun py_int :: "pylib \<Rightarrow> json \<Rightarrow> pyerror + int" where
  "py_int L (JInt i) = Inr i"
| "py_int L (JBool b) = Inr (if b then 1 else 0)"
| "py_int L (JFloat f) = int_of_float f"
| "py_int L (JStr s) = (case int_of_str L s of None \<Rightarrow> Inl ValueError | Some i \<Rightarrow> Inr i)"
| "py_int L _ = Inl TypeError"

fun py_float :: "pylib \<Rightarrow> json \<Rightarrow> pyerror + pyfloat" where
  "py_float L (JFloat f) = Inr f"
| "py_float L (JInt i) = float_of_int i"
| "py_float L (JBool b) = Inr (Finite (if b then 1 else 0))"
| "py_float L (JStr s) = (case float_of_str L s of None \<Rightarrow> Inl ValueError | Some f \<Rightarrow> Inr f)"
| "py_float L _ = Inl TypeError"

text \<open>\<open>x + n\<close> for an \<open>int\<close> \<open>n\<close>, as \<open>x += n\<close> computes it.\<close>

fun py_add_int :: "json \<Rightarrow> int \<Rightarrow> pyerror + json" where
  "py_add_int (JInt a) n = Inr (JInt (a + n))"
| "py_add_int (JBool b) n = Inr (JInt ((if b then 1 else 0) + n))"
| "py_add_int (JFloat f) n =
     (case float_of_int n of Inl e \<Rightarrow> Inl e | Inr g \<Rightarrow> Inr (JFloat (fadd f g)))"
| "py_add_int _ n = Inl TypeError"

text \<open>\<open>x == n\<close> for an \<open>int\<close> \<open>n\<close>: numbers compare by value, across types.\<close>

fun py_eq_int :: "json \<Rightarrow> int \<Rightarrow> bool" where
  "py_eq_int (JInt a) n = (a = n)"
| "py_eq_int (JBool b) n = ((if b then 1 else 0) = n)"
| "py_eq_int (JFloat f) n = (f = Finite (of_int n))"
| "py_eq_int _ n = False"

subsection \<open>Dictionary keys\<close>

text \<open>
  The hashable values. A list or a dict as a key raises \<open>TypeError\<close>. The dicts of this
  program hold the \<open>str\<close> keys of a decoded document and at most one other key, so two
  keys of different constructors are never equal and \<open>=\<close> is key equality.
\<close>

datatype pykey = KNone | KBool bool | KInt int | KFloat pyfloat | KStr string

fun as_key :: "json \<Rightarrow> pyerror + pykey" where
  "as_key JNull = Inr KNone"
| "as_key (JBool b) = Inr (KBool b)"
| "as_key (JInt i) = Inr (KInt i)"
| "as_key (JFloat f) = Inr (KFloat f)"
| "as_key (JStr s) = Inr (KStr s)"
| "as_key _ = Inl TypeError"

text \<open>The key \<open>json.dump\<close> writes for a dict key.\<close>

fun json_key :: "pylib \<Rightarrow> pykey \<Rightarrow> string" where
  "json_key L (KStr s) = s"
| "json_key L KNone = ''null''"
| "json_key L (KBool b) = (if b then ''true'' else ''false'')"
| "json_key L (KInt i) = str_of L (JInt i)"
| "json_key L (KFloat NaN) = ''NaN''"
| "json_key L (KFloat PosInf) = ''Infinity''"
| "json_key L (KFloat NegInf) = ''-Infinity''"
| "json_key L (KFloat (Finite r)) = str_of L (JFloat (Finite r))"

section \<open>The score store\<close>

text \<open>
  The file \<open>scores.json\<close>: absent (or not to be opened), holding text that
  \<open>json.load\<close> rejects, or holding a document.
\<close>

datatype store_file = Missing | Corrupt | Doc json

text \<open>
  \<open>open\<close> followed by \<open>json.load\<close>: \<open>FileNotFoundError\<close> is an \<open>OSError\<close>,
  \<open>JSONDecodeError\<close> a \<open>ValueError\<close>.
\<close>

definition read_json :: "store_file \<Rightarrow> pyerror + json" where
  "read_json fs = (case fs of Missing \<Rightarrow> Inl OSError | Corrupt \<Rightarrow> Inl ValueError | Doc j \<Rightarrow> Inr j)"

definition load_scores :: "store_file \<Rightarrow> json" where
  "load_scores fs = (case read_json fs of Inl e \<Rightarrow> JObj [] | Inr j \<Rightarrow> j)"

text \<open>
  The object \<open>scores\<close> in memory while \<open>receive_result\<close> updates it: a dict, whose keys
  may now include the player identifier, or a list.
\<close>

datatype scores_obj = SDict "(pykey \<times> json) list" | SList "json list"

text \<open>
  The document read back from what \<open>json.dump\<close> wrote: keys are rendered as strings, and
  of two entries with one rendered key the later value stays, at the place of the earlier.
\<close>

definition dumped :: "pylib \<Rightarrow> scores_obj \<Rightarrow> json" where
  "dumped L obj =
     (case obj of
        SDict d \<Rightarrow> JObj (fold (\<lambda>(k, v) acc. AList.update (json_key L k) v acc) d [])
      | SList xs \<Rightarrow> JList xs)"

text \<open>
  Whether \<open>open\<close> and \<open>json.dump\<close> go through is not computed here:
  \<open>WriteFails e fs\<close> is the exception \<open>e\<close> from one of them (an \<open>OSError\<close> of the
  file system, a \<open>ValueError\<close> of \<open>json.dump\<close> on an integer too long to print)
  that leaves the file as \<open>fs\<close>.
\<close>

datatype write_outcome = Written | WriteFails pyerror store_file

definition save_scores ::
  "pylib \<Rightarrow> write_outcome \<Rightarrow> scores_obj \<Rightarrow> (pyerror + unit) \<times> store_file" where
  "save_scores L wo scores =
     (case wo of
        Written \<Rightarrow> (Inr (), Doc (dumped L scores))
      | WriteFails e fs \<Rightarrow> (Inl e, fs))"

section \<open>Settlement: \<open>receive_result\<close>\<close>

definition COMMISSION_RATE :: pyfloat where
  "COMMISSION_RATE = round_double (15 / 100)"

text \<open>\<open>os.environ.get("OWNER_WALLET", ...)\<close>, from the variable's value if it is set.\<close>

definition OWNER_WALLET :: "string option \<Rightarrow> string" where
  "OWNER_WALLET var =
     (case var of None \<Rightarrow> ''UQC6JjZfg6wpyIq7EoiFyFelqH9GvnMABdV9CasyAzJWX9Xa'' | Some w \<Rightarrow> w)"

text \<open>
  The lines the handler prints, by what they are formatted from: the wallet and the
  category; the scores and the winner; the stake, commission and net reward; the
  commission and the owner wallet; the exception caught while updating the store.
\<close>

datatype log_line =
    LogReceived json json
  | LogScore int int string
  | LogStake pyfloat pyfloat pyfloat
  | LogCommission pyfloat string
  | LogFailed pyerror

text \<open>
  What the handler does not compute: the environment variable, the fate of the write,
  and whether standard output takes a line. \<open>stdout E l = Some e\<close> is \<open>print\<close>
  raising \<open>e\<close> on the line \<open>l\<close>, as it does with \<open>UnicodeEncodeError\<close> on text that
  the encoding of standard output cannot encode.
\<close>

record env =
  owner_wallet_var :: "string option"
  write_result :: write_outcome
  stdout :: "log_line \<Rightarrow> pyerror option"

text \<open>
  \<open>request.get_json(silent=True) or {}\<close>: the body is \<open>None\<close> when the request carries
  no JSON that parses.
\<close>

definition request_data :: "json option \<Rightarrow> json" where
  "request_data body = (case body of None \<Rightarrow> JObj [] | Some j \<Rightarrow> if truthy j then j else JObj [])"

text \<open>The local variables set by the first seven lines of the handler.\<close>

record request =
  wallet :: json
  user_score :: int
  opp_score :: int
  stake :: pyfloat
  category :: json

definition read_request :: "pylib \<Rightarrow> json option \<Rightarrow> pyerror + request" where
  "read_request L body =
     (let data = request_data body in
      and_then (py_get data ''wallet'' JNull) (\<lambda>w.
      and_then (py_get data ''score'' (JObj [])) (\<lambda>score.
      and_then (py_get score ''user'' (JInt 0)) (\<lambda>us.
      and_then (py_int L us) (\<lambda>u.
      and_then (py_get score ''opponent'' (JInt 0)) (\<lambda>os.
      and_then (py_int L os) (\<lambda>opp.
      and_then (py_get data ''stake'' (JFloat (Finite 1))) (\<lambda>st.
      and_then (py_float L st) (\<lambda>stk.
      and_then (py_get data ''category'' (JStr ''general'')) (\<lambda>cat.
      Inr \<lparr>wallet = w, user_score = u, opp_score = opp, stake = stk,
           category = cat\<rparr>))))))))))"

text \<open>
  The player identifier. No step of the \<open>try\<close> block raises on a decoded value, so the
  \<open>except\<close> branch is never taken.
\<close>

definition player_id_of :: "pylib \<Rightarrow> json \<Rightarrow> json" where
  "player_id_of L w =
     (let p1 =
        (case w of
           JObj kvs \<Rightarrow>
             (let p0 = (case map_of kvs ''account'' of
                          Some (JObj acc) \<Rightarrow> dict_get acc ''address'' JNull
                        | _ \<Rightarrow> JNull)
              in if \<not> truthy p0
                 then py_or (dict_get kvs ''address'' JNull) (dict_get kvs ''publicKey'' JNull)
                 else p0)
         | _ \<Rightarrow> JNull)
      in if \<not> truthy p1 then JStr (str_of L w) else p1)"

text \<open>
  The three statements between \<open>load_scores()\<close> and \<open>save_scores(scores)\<close>, on the
  loaded object. On a dict the identifier must be hashable. On a list \<open>in\<close> compares
  with \<open>==\<close> and the subscript must be an \<open>int\<close> in range (negative from the end).
  A \<open>str\<close> takes no item assignment and has no item at a \<open>str\<close> index; the other
  values have no \<open>in\<close>.
\<close>

definition list_index :: "json \<Rightarrow> int option" where
  "list_index p = (case p of JInt i \<Rightarrow> Some i | JBool b \<Rightarrow> Some (if b then 1 else 0) | _ \<Rightarrow> None)"

definition add_score :: "json \<Rightarrow> json \<Rightarrow> int \<Rightarrow> pyerror + scores_obj" where
  "add_score scores player_id n =
     (case scores of
        JObj kvs \<Rightarrow>
          (case as_key player_id of
             Inl e \<Rightarrow> Inl e
           | Inr k \<Rightarrow>
               (let d = map (\<lambda>(s, v). (KStr s, v)) kvs;
                    d1 = (if k \<notin> fst ` set d then AList.update k (JInt 0) d else d)
                in case map_of d1 k of
                     None \<Rightarrow> Inl TypeError
                   | Some old \<Rightarrow>
                       (case py_add_int old n of
                          Inl e \<Rightarrow> Inl e
                        | Inr new \<Rightarrow> Inr (SDict (AList.update k new d1)))))
      | JList xs \<Rightarrow>
          (case list_index player_id of
             None \<Rightarrow> Inl TypeError
           | Some i \<Rightarrow>
               (let len = int (length xs);
                    j = (if i < 0 then i + len else i)
                in if j < 0 \<or> len \<le> j then Inl IndexError
                   else let xs1 = (if \<not> (\<exists>x \<in> set xs. py_eq_int x i)
                                   then xs[nat j := JInt 0] else xs)
                        in case py_add_int (xs1 ! nat j) n of
                             Inl e \<Rightarrow> Inl e
                           | Inr new \<Rightarrow> Inr (SList (xs1[nat j := new]))))
      | _ \<Rightarrow> Inl TypeError)"

record response =
  status :: string
  winner :: string
  commission :: pyfloat
  net_reward :: pyfloat

text \<open>
  The settlement the handler computes from the scores and the stake, in the object it
  returns at its end.
\<close>

definition settle :: "request \<Rightarrow> response" where
  "settle rq =
     (let winner = (if opp_score rq < user_score rq then ''user''
                    else if user_score rq < opp_score rq then ''opponent''
                    else ''tie'');
          commission = (if winner \<noteq> ''tie'' then fmul (stake rq) COMMISSION_RATE
                        else Finite 0);
          net_reward = (if winner \<noteq> ''tie'' then fsub (stake rq) commission
                        else Finite 0)
      in \<lparr>status = ''ok'', winner = winner, commission = commission,
           net_reward = net_reward\<rparr>)"

text \<open>
  The three lines printed after the settlement, and the fourth if the commission is
  truthy (not zero).
\<close>

definition settlement_lines :: "env \<Rightarrow> request \<Rightarrow> log_line list" where
  "settlement_lines E rq =
     (let r = settle rq in
      [LogReceived (wallet rq) (category rq),
       LogScore (user_score rq) (opp_score rq) (winner r),
       LogStake (stake rq) (commission r) (net_reward r)] @
      (if commission r \<noteq> Finite 0
       then [LogCommission (commission r) (OWNER_WALLET (owner_wallet_var E))]
       else []))"

text \<open>
  Printing lines one after the other: the lines that got out, and the exception of the
  first \<open>print\<close> that raised, if one did.
\<close>

fun print_all :: "env \<Rightarrow> log_line list \<Rightarrow> log_line list \<times> pyerror option" where
  "print_all E [] = ([], None)"
| "print_all E (l # ls) =
     (case stdout E l of
        Some e \<Rightarrow> ([], Some e)
      | None \<Rightarrow> (case print_all E ls of (out, r) \<Rightarrow> (l # out, r)))"

text \<open>
  The \<open>try\<close> block that updates the store: the file it leaves, and the exception its
  \<open>except\<close> clause caught, if any.
\<close>

definition update_store ::
  "pylib \<Rightarrow> env \<Rightarrow> store_file \<Rightarrow> json \<Rightarrow> int \<Rightarrow> store_file \<times> pyerror option" where
  "update_store L E fs player_id n =
     (case add_score (load_scores fs) player_id n of
        Inl e \<Rightarrow> (fs, Some e)
      | Inr scores \<Rightarrow>
          (case save_scores L (write_result E) scores of
             (Inl e, fs1) \<Rightarrow> (fs1, Some e)
           | (Inr u, fs1) \<Rightarrow> (fs1, None)))"

record outcome =
  reply :: "pyerror + response"
  store :: store_file
  printed :: "log_line list"

text \<open>
  The handler of \<open>POST /result\<close>. An exception that leaves it (\<open>Inl\<close>) is answered by
  the framework with status 500; \<open>Inr\<close> is the JSON object sent with status 200. The
  \<open>print\<close> calls stand outside the \<open>try\<close> blocks (the last one inside an \<open>except\<close>
  clause), so an exception of theirs leaves the handler: before the store is touched
  for the first four, after it for the last.
\<close>

definition receive_result :: "pylib \<Rightarrow> env \<Rightarrow> store_file \<Rightarrow> json option \<Rightarrow> outcome" where
  "receive_result L E fs body =
     (case read_request L body of
        Inl e \<Rightarrow> \<lparr>reply = Inl e, store = fs, printed = []\<rparr>
      | Inr rq \<Rightarrow>
          (case print_all E (settlement_lines E rq) of
             (out, Some e) \<Rightarrow> \<lparr>reply = Inl e, store = fs, printed = out\<rparr>
           | (out, None) \<Rightarrow>
               (let player_id = player_id_of L (wallet rq) in
                case update_store L E fs player_id (user_score rq) of
                  (fs', None) \<Rightarrow>
                    \<lparr>reply = Inr (settle rq), store = fs', printed = out\<rparr>
                | (fs', Some e) \<Rightarrow>
                    (case stdout E (LogFailed e) of
                       None \<Rightarrow>
                         \<lparr>reply = Inr (settle rq), store = fs',
                          printed = out @ [LogFailed e]\<rparr>
                     | Some e' \<Rightarrow> \<lparr>reply = Inl e', store = fs', printed = out\<rparr>))))"

section \<open>The leaderboard: \<open>get_leaderboard\<close>\<close>

record entry =
  player :: string
  score :: json
  rank :: int

text \<open>
  The sort key \<open>(-x[1], x[0])\<close> of an item. Unary minus raises \<open>TypeError\<close> on a value
  that is not a number. Tuples of a number and a string compare lexicographically, the
  numbers by value across \<open>int\<close>, \<open>bool\<close> and \<open>float\<close>: \<open>num_place\<close> embeds them into
  an order, below, among or above the rationals. A NaN compares false with everything,
  so the order \<open>sorted\<close> leaves then depends on its merge strategy: outside the model.
\<close>

fun py_neg :: "json \<Rightarrow> pyerror + json" where
  "py_neg (JInt i) = Inr (JInt (- i))"
| "py_neg (JBool b) = Inr (JInt (- (if b then 1 else 0)))"
| "py_neg (JFloat f) = Inr (JFloat (fneg f))"
| "py_neg _ = Inl TypeError"

fun num_place :: "json \<Rightarrow> (nat \<times> rat) option" where
  "num_place (JInt i) = Some (1, of_int i)"
| "num_place (JFloat (Finite r)) = Some (1, r)"
| "num_place (JFloat NegInf) = Some (0, 0)"
| "num_place (JFloat PosInf) = Some (2, 0)"
| "num_place _ = None"

datatype sort_key = KeyRaises pyerror | KeyNaN | Key "(nat \<times> rat) \<times> string"

definition item_key :: "string \<times> json \<Rightarrow> sort_key" where
  "item_key x =
     (case py_neg (snd x) of
        Inl e \<Rightarrow> KeyRaises e
      | Inr m \<Rightarrow> (case num_place m of None \<Rightarrow> KeyNaN | Some q \<Rightarrow> Key (q, fst x)))"

definition the_key :: "sort_key \<Rightarrow> (nat \<times> rat) \<times> string" where
  "the_key k = (case k of Key q \<Rightarrow> q | _ \<Rightarrow> ((0, 0), []))"

text \<open>The loop that numbers the rows.\<close>

fun rank_rows :: "int \<Rightarrow> (string \<times> json) list \<Rightarrow> entry list" where
  "rank_rows rk [] = []"
| "rank_rows rk ((pl, pts) # rest) =
     \<lparr>player = pl, score = pts, rank = rk\<rparr> # rank_rows (rk + 1) rest"

text \<open>
  The handler of \<open>GET /leaderboard\<close>: \<open>None\<close> where a NaN score leaves the order to the
  sorting algorithm, \<open>Some (Inl e)\<close> an exception (status 500), \<open>Some (Inr rows)\<close> the
  list sent. The keys are computed for all items before any is compared, so the first
  item whose key raises decides. \<open>sort_key\<close> is a stable sort, as \<open>sorted\<close> is.
\<close>

fun first_raise :: "sort_key list \<Rightarrow> pyerror option" where
  "first_raise [] = None"
| "first_raise (KeyRaises e # ks) = Some e"
| "first_raise (_ # ks) = first_raise ks"

definition get_leaderboard :: "store_file \<Rightarrow> (pyerror + entry list) option" where
  "get_leaderboard fs =
     (case load_scores fs of
        JObj items \<Rightarrow>
          (let keys = map item_key items in
           case first_raise keys of
             Some e \<Rightarrow> Some (Inl e)
           | None \<Rightarrow>
               if KeyNaN \<in> set keys then None
               else Some (Inr (rank_rows 1 (sort_key (\<lambda>x. the_key (item_key x)) items))))
      | _ \<Rightarrow> Some (Inl AttributeError))"

section \<open>Questions: \<open>get_questions\<close>\<close>

record trivia_question =
  question :: string
  options :: "string list"
  correctIndex :: int

definition general_questions :: "trivia_question list" where
  "general_questions =
     [\<lparr>question = ''What is the capital city of France?'',
        options = [''Berlin'', ''Madrid'', ''Paris'', ''Rome''],
        correctIndex = 2\<rparr>,
      \<lparr>question = ''Which planet is known as the Red Planet?'',
        options = [''Earth'', ''Mars'', ''Venus'', ''Jupiter''],
        correctIndex = 1\<rparr>,
      \<lparr>question = ''Who wrote the play '' @ [CHR 0x27] @ ''Romeo and Juliet'' @ [CHR 0x27] @ ''?'',
        options = [''William Shakespeare'', ''Jane Austen'', ''Mark Twain'', ''Charles Dickens''],
        correctIndex = 0\<rparr>,
      \<lparr>question = ''How many continents are there on Earth?'',
        options = [''Five'', ''Six'', ''Seven'', ''Eight''],
        correctIndex = 2\<rparr>,
      \<lparr>question = ''What gas do plants absorb from the atmosphere?'',
        options = [''Oxygen'', ''Nitrogen'', ''Carbon Dioxide'', ''Hydrogen''],
        correctIndex = 2\<rparr>]"

definition football_questions :: "trivia_question list" where
  "football_questions =
     [\<lparr>question = ''Which country won the FIFA World Cup in 2018?'',
        options = [''Brazil'', ''France'', ''Germany'', ''Argentina''],
        correctIndex = 1\<rparr>,
      \<lparr>question = ''Who is known as '' @ [CHR 0x27] @ ''El Pibe de Oro'' @ [CHR 0x27] @ '' in football?'',
        options = [''Lionel Messi'', ''Diego Maradona'', ''Cristiano Ronaldo'', ''Pel'' @ [CHR 0xC3] @ [CHR 0xA9]],
        correctIndex = 1\<rparr>,
      \<lparr>question = ''Which club does Mohamed Salah play for (as of 2024)?'',
        options = [''Liverpool'', ''Real Madrid'', ''Chelsea'', ''Paris Saint-Germain''],
        correctIndex = 0\<rparr>,
      \<lparr>question = ''How long is a standard football match (excluding injury time)?'',
        options = [''80 minutes'', ''90 minutes'', ''100 minutes'', ''120 minutes''],
        correctIndex = 1\<rparr>,
      \<lparr>question = ''Which country has won the most UEFA Champions League titles?'',
        options = [''England'', ''Spain'', ''Italy'', ''Germany''],
        correctIndex = 1\<rparr>]"

definition crypto_questions :: "trivia_question list" where
  "crypto_questions =
     [\<lparr>question = ''What was the first cryptocurrency ever created?'',
        options = [''Ethereum'', ''Litecoin'', ''Bitcoin'', ''Dogecoin''],
        correctIndex = 2\<rparr>,
      \<lparr>question = ''Who is credited as the creator of Bitcoin?'',
        options = [''Vitalik Buterin'', ''Satoshi Nakamoto'', ''Charlie Lee'', ''Jed McCaleb''],
        correctIndex = 1\<rparr>,
      \<lparr>question = ''Which blockchain platform introduced smart contracts?'',
        options = [''Bitcoin'', ''Ripple'', ''Ethereum'', ''Cardano''],
        correctIndex = 2\<rparr>,
      \<lparr>question = ''What does NFT stand for?'',
        options = [''New Finance Token'', ''Non-Fungible Token'', ''Network Fee Transaction'', ''Non-Financial Transaction''],
        correctIndex = 1\<rparr>,
      \<lparr>question = ''Which consensus algorithm does Bitcoin use?'',
        options = [''Proof of Stake'', ''Proof of Authority'', ''Proof of Work'', ''Delegated Proof of Stake''],
        correctIndex = 2\<rparr>]"

definition CATEGORIES :: "(string \<times> trivia_question list) list" where
  "CATEGORIES =
     [(''general'', general_questions),
      (''football'', football_questions),
      (''crypto'', crypto_questions)]"

text \<open>
  \<open>str.lower\<close> on the bytes of the UTF-8 text: the letters \<open>A\<close> to \<open>Z\<close> are mapped,
  every other byte is kept. (Outside ASCII Python maps more, but only to characters
  outside ASCII or to \<open>k\<close> and \<open>i\<close>, which no category name contains.)
\<close>

definition lower_char :: "char \<Rightarrow> char" where
  "lower_char c = (if CHR ''A'' \<le> c \<and> c \<le> CHR ''Z'' then char_of (of_char c + (32 :: nat)) else c)"

definition py_lower :: "string \<Rightarrow> string" where
  "py_lower s = map lower_char s"

text \<open>
  \<open>random.sample(population, k)\<close> for a population of at most 21 elements and
  \<open>k \<le> 5\<close>, where it copies the population and, \<open>k\<close> times, takes the element at a
  random index below the number of elements left and moves the last of them there.
  \<open>rnd i\<close> is the generator's \<open>i\<close>-th number; \<open>_randbelow(m)\<close> is below \<open>m\<close>.
\<close>

definition randbelow :: "(nat \<Rightarrow> nat) \<Rightarrow> nat \<Rightarrow> nat \<Rightarrow> nat" where
  "randbelow rnd i m = rnd i mod m"

fun sample_loop :: "(nat \<Rightarrow> nat) \<Rightarrow> nat \<Rightarrow> 'a list \<Rightarrow> nat \<Rightarrow> 'a list" where
  "sample_loop rnd i pool 0 = []"
| "sample_loop rnd i pool (Suc todo) =
     (let m = length pool - i;
          j = randbelow rnd i m
      in pool ! j # sample_loop rnd (Suc i) (pool[j := pool ! (m - 1)]) todo)"

definition random_sample :: "(nat \<Rightarrow> nat) \<Rightarrow> 'a list \<Rightarrow> nat \<Rightarrow> pyerror + 'a list" where
  "random_sample rnd population k =
     (if length population < k then Inl ValueError
      else Inr (sample_loop rnd 0 population k))"

text \<open>
  The handler of \<open>GET /questions\<close>; \<open>arg\<close> is the query parameter \<open>category\<close>, if the
  request has one.
\<close>

definition get_questions :: "(nat \<Rightarrow> nat) \<Rightarrow> string option \<Rightarrow> pyerror + trivia_question list" where
  "get_questions rnd arg =
     (let category = py_lower (case arg of None \<Rightarrow> ''general'' | Some c \<Rightarrow> c);
          questions_pool = (case map_of CATEGORIES category of
                              None \<Rightarrow> general_questions
                            | Some p \<Rightarrow> p);
          n = min 5 (length questions_pool)
      in random_sample rnd questions_pool n)"

section \<open>A stand-in for the builtins\<close>

text \<open>
  The theorems below hold for every \<open>pylib\<close>. The examples need one: \<open>sample_lib\<close>
  has \<open>str\<close> as Python has it on \<open>None\<close>, \<open>bool\<close> and \<open>str\<close>, and \<open>int\<close> and
  \<open>float\<close> as Python has them on a string of ASCII digits. No example applies it to
  anything else.
\<close>

definition sample_str :: "json \<Rightarrow> string" where
  "sample_str v =
     (case v of
        JStr s \<Rightarrow> s
      | JNull \<Rightarrow> ''None''
      | JBool b \<Rightarrow> (if b then ''True'' else ''False'')
      | _ \<Rightarrow> [])"

definition sample_nat :: "string \<Rightarrow> int option" where
  "sample_nat s =
     (if s \<noteq> [] \<and> (\<forall>c \<in> set s. CHR ''0'' \<le> c \<and> c \<le> CHR ''9'')
      then Some (foldl (\<lambda>a c. 10 * a + (of_char c - 48)) 0 s) else None)"

definition sample_lib :: pylib where
  "sample_lib =
     \<lparr>str_of = sample_str, int_of_str = sample_nat,
      float_of_str = (\<lambda>s. map_option (\<lambda>i. round_double (of_int i)) (sample_nat s))\<rparr>"

text \<open>
  A standard output encoded in UTF-8: it takes every line but one that holds a lone
  surrogate. The wallet and the category are formatted with \<open>str\<close>, which keeps the
  text of a \<open>str\<close> as it is and escapes the strings nested in a list or dict; the
  other lines are ASCII but for the owner wallet.
\<close>

fun has_surrogate :: "string \<Rightarrow> bool" where
  "has_surrogate (a # b # s) =
     (a = CHR 0xED \<and> CHR 0xA0 \<le> b \<and> b \<le> CHR 0xBF \<or> has_surrogate (b # s))"
| "has_surrogate _ = False"

definition str_has_surrogate :: "json \<Rightarrow> bool" where
  "str_has_surrogate v = (case v of JStr s \<Rightarrow> has_surrogate s | _ \<Rightarrow> False)"

definition utf8_stdout :: "log_line \<Rightarrow> pyerror option" where
  "utf8_stdout l =
     (case l of
        LogReceived w c \<Rightarrow>
          if str_has_surrogate w \<or> str_has_surrogate c then Some UnicodeEncodeError else None
      | LogCommission x ow \<Rightarrow> if has_surrogate ow then Some UnicodeEncodeError else None
      | _ \<Rightarrow> None)"

definition sample_env :: env where
  "sample_env = \<lparr>owner_wallet_var = None, write_result = Written, stdout = utf8_stdout\<rparr>"

section \<open>Lines that standard output takes\<close>

definition accepts :: "env \<Rightarrow> log_line list \<Rightarrow> bool" where
  "accepts E ls = (\<forall>l \<in> set ls. stdout E l = None)"

section \<open>The identifier, as a choice among candidates\<close>

text \<open>
  The three fields the handler looks at, in its order: the address of a nested account
  object, the top-level address, the top-level public key. A field that is absent
  counts as \<open>None\<close>, as \<open>dict.get\<close> returns it.
\<close>

definition candidates :: "json \<Rightarrow> json list" where
  "candidates w =
     (case w of
        JObj kvs \<Rightarrow>
          [case map_of kvs ''account'' of
             Some (JObj acc) \<Rightarrow> dict_get acc ''address'' JNull
           | _ \<Rightarrow> JNull,
           dict_get kvs ''address'' JNull,
           dict_get kvs ''publicKey'' JNull]
      | _ \<Rightarrow> [])"

text \<open>
  The extraction rule as the specification words it, by the presence of a field: the
  nested address if the wallet is an object with a nested account object that has one,
  else the top-level address if there is one, else the top-level public key if there is
  one, else the rendering of the whole value.
\<close>

definition player_id_spec :: "pylib \<Rightarrow> json \<Rightarrow> json" where
  "player_id_spec L w =
     (case w of
        JObj kvs \<Rightarrow>
          (case (case map_of kvs ''account'' of
                   Some (JObj acc) \<Rightarrow> map_of acc ''address''
                 | _ \<Rightarrow> None) of
             Some a \<Rightarrow> a
           | None \<Rightarrow>
               (case map_of kvs ''address'' of
                  Some a \<Rightarrow> a
                | None \<Rightarrow>
                    (case map_of kvs ''publicKey'' of
                       Some k \<Rightarrow> k
                     | None \<Rightarrow> JStr (str_of L w))))
      | _ \<Rightarrow> JStr (str_of L w))"

section \<open>The order of the leaderboard\<close>

text \<open>
  \<open>row_item\<close> is the player and the score of a row. An item may stand before another
  in the leaderboard if its score is greater, or the scores are equal and its player
  identifier is not greater (strings compare lexicographically).
\<close>

definition row_item :: "entry \<Rightarrow> string \<times> json" where
  "row_item e = (player e, score e)"

definition comes_before :: "string \<times> json \<Rightarrow> string \<times> json \<Rightarrow> bool" where
  "comes_before a b =
     (case (snd a, snd b) of
        (JInt x, JInt y) \<Rightarrow> y < x \<or> (x = y \<and> fst a \<le> fst b)
      | _ \<Rightarrow> False)"

section \<open>The pool a category resolves to\<close>

text \<open>
  As the specification words it: the category is taken in lower case, "general" if the
  request names none; the pool is that of the catalog category of this name, and the
  pool of "general" for any other name.
\<close>

definition resolved_pool :: "string option \<Rightarrow> trivia_question list" where
  "resolved_pool arg =
     (let c = py_lower (case arg of None \<Rightarrow> ''general'' | Some a \<Rightarrow> a)
      in if c = ''football'' then football_questions
         else if c = ''crypto'' then crypto_questions
         else general_questions)"

section \<open>The stored score of a player\<close>

text \<open>The integer a mapping holds for a player, 0 for a player it does not hold.\<close>

definition stored :: "(string \<times> json) list \<Rightarrow> string \<Rightarrow> int" where
  "stored kvs p = (case map_of kvs p of Some (JInt v) \<Rightarrow> v | _ \<Rightarrow> 0)"

section \<open>The player identifier\<close>

text \<open>
  C4, as the code has it. The identifier is the first of the three candidate fields
  whose value is truthy (present, and not null, empty, zero or false); if there is
  none, or the wallet is not an object, it is the string rendering of the whole wallet.
\<close>

theorem player_id_first_truthy:
  "player_id_of L w =
     (case filter truthy (candidates w) of [] \<Rightarrow> JStr (str_of L w) | c # _ \<Rightarrow> c)"
  by (auto simp add: player_id_of_def candidates_def Let_def py_or_def
      split: json.splits option.splits)

theorem player_id_first_truthy_witness:
  "player_id_of sample_lib (JObj [(''address'', JStr []), (''publicKey'', JStr ''pk'')]) =
     JStr ''pk'' \<and>
   player_id_of sample_lib JNull = JStr ''None''"
  using player_id_first_truthy
          [of sample_lib "JObj [(''address'', JStr []), (''publicKey'', JStr ''pk'')]"]
        player_id_first_truthy [of sample_lib JNull]
  by (simp add: candidates_def dict_get_def sample_lib_def sample_str_def)

text \<open>
  A nested address that is present but empty is passed over: by the rule worded on
  presence the identifier would be the empty string, the handler takes the top-level
  address.
\<close>

theorem player_id_counterexample:
  "player_id_spec sample_lib
     (JObj [(''account'', JObj [(''address'', JStr [])]), (''address'', JStr ''X'')]) = JStr [] \<and>
   player_id_of sample_lib
     (JObj [(''account'', JObj [(''address'', JStr [])]), (''address'', JStr ''X'')]) = JStr ''X''"
  by (simp add: player_id_spec_def player_id_of_def dict_get_def py_or_def)

section \<open>Failures of the store\<close>

text \<open>
  C9. Whatever exception reading the store file raises, \<open>load_scores\<close> returns the
  empty mapping and the leaderboard is the empty list; a missing file and a file that
  does not parse are such states.
\<close>

theorem load_fails_soft:
  "(read_json fs = Inl e \<longrightarrow> load_scores fs = JObj [] \<and> get_leaderboard fs = Some (Inr [])) \<and>
   read_json Missing = Inl OSError \<and> read_json Corrupt = Inl ValueError \<and>
   get_leaderboard Missing = Some (Inr [])"
  by (simp add: load_scores_def get_leaderboard_def read_json_def)

theorem load_fails_soft_witness:
  "read_json Corrupt = Inl ValueError \<and> load_scores Corrupt = JObj [] \<and>
   get_leaderboard Corrupt = Some (Inr [])"
  using load_fails_soft [of Corrupt ValueError] by (simp add: read_json_def)

section \<open>The leaderboard is sorted and ranked\<close>

lemma rank_rows_items: "map row_item (rank_rows r xs) = xs"
  by (induction r xs rule: rank_rows.induct) (simp_all add: row_item_def)

lemma rank_rows_ranks: "map rank (rank_rows r xs) = map (\<lambda>n. r + int n) [0..<length xs]"
proof (induction r xs rule: rank_rows.induct)
  case (1 rk)
  then show ?case by simp
next
  case (2 rk pl pts rest)
  have "[0..<length ((pl, pts) # rest)] = 0 # map Suc [0..<length rest]"
    by (simp add: upt_conv_Cons map_Suc_upt del: upt_Suc)
  with 2 show ?case by (simp add: o_def del: upt_Suc)
qed

lemma item_key_int: "item_key (p, JInt i) = Key ((1, of_int (- i)), p)"
  by (simp add: item_key_def)

lemma key_le_iff:
  "the_key (item_key (p, JInt x)) \<le> the_key (item_key (q, JInt y)) \<longleftrightarrow>
     y < x \<or> (x = y \<and> p \<le> q)"
  by (auto simp add: item_key_int the_key_def less_eq_prod_def)

lemma int_scores_keys:
  assumes "\<forall>v \<in> snd ` set kvs. \<exists>i. v = JInt i"
  shows "first_raise (map item_key kvs) = None" and "KeyNaN \<notin> set (map item_key kvs)"
  using assms by (induction kvs) (auto simp add: item_key_int)

text \<open>
  C7. For a store that holds a mapping to integers, the leaderboard has one row for
  each entry; the rows are in order of score descending and, among equal scores, of
  player identifier ascending; and the ranks are 1, 2, 3, ... in that order, equal
  scores or not.
\<close>

theorem leaderboard_sorted_ranked:
  assumes "load_scores fs = JObj kvs" and "\<forall>v \<in> snd ` set kvs. \<exists>i. v = JInt i"
  shows "\<exists>rows. get_leaderboard fs = Some (Inr rows) \<and>
           mset (map row_item rows) = mset kvs \<and>
           sorted_wrt comes_before (map row_item rows) \<and>
           map rank rows = map (\<lambda>n. 1 + int n) [0..<length kvs]"
proof -
  let ?f = "\<lambda>x. the_key (item_key x)"
  let ?s = "sort_key ?f kvs"
  have gl: "get_leaderboard fs = Some (Inr (rank_rows 1 ?s))"
    using assms(1) int_scores_keys [OF assms(2)]
    by (simp add: get_leaderboard_def Let_def)
  have ints: "\<forall>x \<in> set ?s. \<exists>i. snd x = JInt i"
    using assms(2) by auto
  have "sorted (map ?f ?s)" by (rule sorted_sort_key)
  then have "sorted_wrt (\<lambda>a b. ?f a \<le> ?f b) ?s"
    by (simp add: sorted_map)
  then have "sorted_wrt comes_before ?s"
  proof (rule sorted_wrt_mono_rel [rotated])
    fix a b assume "a \<in> set ?s" "b \<in> set ?s" "?f a \<le> ?f b"
    with ints obtain x y where "snd a = JInt x" "snd b = JInt y" by blast
    with \<open>?f a \<le> ?f b\<close> show "comes_before a b"
      using key_le_iff [of "fst a" x "fst b" y]
      by (cases a; cases b) (simp add: comes_before_def)
  qed
  moreover have "map row_item (rank_rows 1 ?s) = ?s"
    by (rule rank_rows_items)
  moreover have "mset ?s = mset kvs"
    by simp
  moreover have "map rank (rank_rows 1 ?s) = map (\<lambda>n. 1 + int n) [0..<length kvs]"
    by (simp add: rank_rows_ranks)
  ultimately show ?thesis
    using gl by metis
qed

text \<open>The scores a: 10, b: 20, c: 20 give b, c, a with ranks 1, 2, 3.\<close>

theorem leaderboard_sorted_ranked_witness:
  "load_scores (Doc (JObj [(''a'', JInt 10), (''b'', JInt 20), (''c'', JInt 20)])) =
     JObj [(''a'', JInt 10), (''b'', JInt 20), (''c'', JInt 20)] \<and>
   get_leaderboard (Doc (JObj [(''a'', JInt 10), (''b'', JInt 20), (''c'', JInt 20)])) =
     Some (Inr [\<lparr>player = ''b'', score = JInt 20, rank = 1\<rparr>,
                \<lparr>player = ''c'', score = JInt 20, rank = 2\<rparr>,
                \<lparr>player = ''a'', score = JInt 10, rank = 3\<rparr>]) \<and>
   sorted_wrt comes_before [(''b'', JInt 20), (''c'', JInt 20), (''a'', JInt 10)]"
proof -
  let ?kvs = "[(''a'', JInt 10), (''b'', JInt 20), (''c'', JInt 20)]"
  have ld: "load_scores (Doc (JObj ?kvs)) = JObj ?kvs"
    by (simp add: load_scores_def read_json_def)
  have gl: "get_leaderboard (Doc (JObj ?kvs)) =
     Some (Inr [\<lparr>player = ''b'', score = JInt 20, rank = 1\<rparr>,
                \<lparr>player = ''c'', score = JInt 20, rank = 2\<rparr>,
                \<lparr>player = ''a'', score = JInt 10, rank = 3\<rparr>])"
    by (simp add: get_leaderboard_def ld Let_def item_key_int the_key_def less_eq_prod_def
        less_prod_def)
  from leaderboard_sorted_ranked [OF ld] gl show ?thesis
    using ld by (simp add: row_item_def)
qed

section \<open>Sampling the questions\<close>

lemma take_swap_last:
  assumes "j < m" and "m \<le> length pool"
  shows "add_mset (pool ! j) (mset (take (m - 1) (pool[j := pool ! (m - 1)]))) = mset (take m pool)"
proof -
  from assms have m: "m - 1 < length pool" "Suc (m - 1) = m" by auto
  have tk: "take m pool = take (m - 1) pool @ [pool ! (m - 1)]"
    using take_Suc_conv_app_nth [OF m(1)] m(2) by simp
  show ?thesis
  proof (cases "j = m - 1")
    case True
    then show ?thesis by (simp add: tk)
  next
    case False
    with assms have j: "j < m - 1" by simp
    then have jl: "j < length (take (m - 1) pool)" using m(1) by simp
    have "take (m - 1) (pool[j := pool ! (m - 1)]) = (take (m - 1) pool)[j := pool ! (m - 1)]"
      using j by (simp add: take_update_swap)
    moreover have "(take (m - 1) pool) ! j = pool ! j" using j by simp
    moreover have "pool ! j \<in># mset (take (m - 1) pool)"
      using jl nth_mem [OF jl] \<open>(take (m - 1) pool) ! j = pool ! j\<close> by (metis set_mset_mset)
    ultimately show ?thesis
      using jl by (simp add: tk mset_update)
  qed
qed

lemma sample_loop_length: "length (sample_loop rnd i pool k) = k"
  by (induction k arbitrary: i pool) (simp_all add: Let_def)

lemma sample_loop_mset:
  "i + k \<le> length pool \<Longrightarrow>
   mset (sample_loop rnd i pool k) \<subseteq># mset (take (length pool - i) pool)"
proof (induction k arbitrary: i pool)
  case 0
  then show ?case by simp
next
  case (Suc k)
  let ?m = "length pool - i"
  let ?j = "randbelow rnd i ?m"
  let ?pool = "pool[?j := pool ! (?m - 1)]"
  from Suc.prems have m: "0 < ?m" "?m \<le> length pool" by auto
  then have j: "?j < ?m" by (simp add: randbelow_def)
  from Suc.prems have "Suc i + k \<le> length ?pool" by simp
  from Suc.IH [OF this]
  have "mset (sample_loop rnd (Suc i) ?pool k) \<subseteq># mset (take (?m - 1) ?pool)"
    by simp
  then have "add_mset (pool ! ?j) (mset (sample_loop rnd (Suc i) ?pool k))
             \<subseteq># add_mset (pool ! ?j) (mset (take (?m - 1) ?pool))"
    by simp
  also have "\<dots> = mset (take ?m pool)"
    by (rule take_swap_last [OF j m(2)])
  finally show ?case by (simp add: Let_def)
qed

lemma random_sample_ok:
  assumes "k \<le> length pool" and "distinct pool"
  shows "\<exists>qs. random_sample rnd pool k = Inr qs \<and> length qs = k \<and> distinct qs \<and>
           set qs \<subseteq> set pool"
proof -
  let ?qs = "sample_loop rnd 0 pool k"
  have sub: "mset ?qs \<subseteq># mset pool"
    using sample_loop_mset [of 0 k pool rnd] assms(1) by simp
  have "count (mset pool) x \<le> 1" for x
    using assms(2) by (simp add: distinct_count_atmost_1)
  then have le: "count (mset ?qs) x \<le> 1" for x
    using mset_subset_eq_count [OF sub, of x] order_trans by blast
  have "distinct ?qs"
    unfolding distinct_count_atmost_1
  proof (intro allI)
    fix a
    show "count (mset ?qs) a = (if a \<in> set ?qs then 1 else 0)"
    proof (cases "a \<in> set ?qs")
      case True
      then have "0 < count (mset ?qs) a" by simp
      with le [of a] have "count (mset ?qs) a = 1" by linarith
      with True show ?thesis by (simp only: if_True)
    next
      case False
      then show ?thesis by (simp add: count_mset_0_iff)
    qed
  qed
  moreover have "set ?qs \<subseteq> set pool" using set_mset_mono [OF sub] by simp
  ultimately show ?thesis
    using assms(1) by (simp add: random_sample_def sample_loop_length)
qed

lemma pools:
  "length general_questions = 5" "length football_questions = 5" "length crypto_questions = 5"
  "distinct general_questions" "distinct football_questions" "distinct crypto_questions"
  by (simp_all add: general_questions_def football_questions_def crypto_questions_def)

lemma resolve_eq:
  "(case map_of CATEGORIES (py_lower (case arg of None \<Rightarrow> ''general'' | Some c \<Rightarrow> c)) of
      None \<Rightarrow> general_questions | Some p \<Rightarrow> p) = resolved_pool arg"
  by (simp add: CATEGORIES_def resolved_pool_def Let_def)

text \<open>
  C6. For every category argument, absent or of any spelling, and every run of the
  random generator, \<open>get_questions\<close> raises nothing and returns min(5, size of the
  resolved pool) questions, no two of them equal, each from the resolved pool.
\<close>

theorem get_questions_sample:
  "\<exists>qs. get_questions rnd arg = Inr qs \<and>
        length qs = min 5 (length (resolved_pool arg)) \<and>
        distinct qs \<and> set qs \<subseteq> set (resolved_pool arg)"
proof -
  have "length (resolved_pool arg) = 5" and d: "distinct (resolved_pool arg)"
    by (simp_all add: resolved_pool_def Let_def pools)
  then have "min 5 (length (resolved_pool arg)) \<le> length (resolved_pool arg)" by simp
  from random_sample_ok [OF this d, of rnd] show ?thesis
    by (simp add: get_questions_def Let_def resolve_eq)
qed

theorem get_questions_sample_witness:
  "resolved_pool (Some ''CRYPTO'') = crypto_questions \<and>
   (\<exists>qs. get_questions (\<lambda>i. 0) (Some ''CRYPTO'') = Inr qs \<and> length qs = 5 \<and>
        distinct qs \<and> set qs \<subseteq> set crypto_questions)"
proof -
  have r: "resolved_pool (Some ''CRYPTO'') = crypto_questions"
    by code_simp
  from get_questions_sample [of "\<lambda>i. 0" "Some ''CRYPTO''"] r show ?thesis
    by (simp add: pools)
qed

section \<open>When the handler replies\<close>

lemmas read_request_eval =
  read_request_def request_data_def py_get_def dict_get_def and_then_def

lemma print_all_accepts: "accepts E ls \<Longrightarrow> print_all E ls = (ls, None)"
  by (induction ls) (simp_all add: accepts_def)

lemma reply_Inl:
  "read_request L body = Inl e \<Longrightarrow> reply (receive_result L E fs body) = Inl e"
  by (simp add: receive_result_def)

lemma reply_settle:
  assumes "read_request L body = Inr rq" and "reply (receive_result L E fs body) = Inr r"
  shows "r = settle rq"
  using assms
  by (auto simp add: receive_result_def Let_def split: prod.splits option.splits)

lemma reply_answers:
  assumes "read_request L body = Inr rq" and "accepts E (settlement_lines E rq)"
    and "\<forall>e. stdout E (LogFailed e) = None"
  shows "reply (receive_result L E fs body) = Inr (settle rq)"
  using assms(1,3) print_all_accepts [OF assms(2)]
  by (auto simp add: receive_result_def Let_def split: prod.splits option.splits)

lemma sample_env_accepts:
  "\<not> str_has_surrogate (wallet rq) \<Longrightarrow> \<not> str_has_surrogate (category rq) \<Longrightarrow>
   accepts sample_env (settlement_lines sample_env rq)"
  by (simp add: accepts_def settlement_lines_def sample_env_def utf8_stdout_def Let_def
      OWNER_WALLET_def)

lemma sample_env_notice: "stdout sample_env (LogFailed e) = None"
  by (simp add: sample_env_def utf8_stdout_def)

section \<open>The winner\<close>

text \<open>
  C1. Whenever the handler has read a request, the winner in any reply it gives is
  "user" if the user's score is strictly greater than the opponent's, "opponent" if it
  is strictly less, and "tie" if the two are equal; and it does give a reply when
  standard output takes its lines.
\<close>

theorem winner_three_way:
  assumes "read_request L body = Inr rq"
  shows "(\<forall>r. reply (receive_result L E fs body) = Inr r \<longrightarrow>
            winner r = (if opp_score rq < user_score rq then ''user''
                        else if user_score rq < opp_score rq then ''opponent''
                        else ''tie'')) \<and>
         (accepts E (settlement_lines E rq) \<longrightarrow> (\<forall>e. stdout E (LogFailed e) = None) \<longrightarrow>
            (\<exists>r. reply (receive_result L E fs body) = Inr r))"
proof (intro conjI allI impI)
  fix r assume "reply (receive_result L E fs body) = Inr r"
  with assms have "r = settle rq" by (rule reply_settle)
  then show "winner r = (if opp_score rq < user_score rq then ''user''
                        else if user_score rq < opp_score rq then ''opponent''
                        else ''tie'')"
    by (simp add: settle_def Let_def)
next
  assume "accepts E (settlement_lines E rq)" "\<forall>e. stdout E (LogFailed e) = None"
  with assms have "reply (receive_result L E fs body) = Inr (settle rq)"
    by (rule reply_answers)
  then show "\<exists>r. reply (receive_result L E fs body) = Inr r" by blast
qed

theorem winner_three_way_witness:
  "read_request sample_lib
     (Some (JObj [(''score'', JObj [(''user'', JInt 3), (''opponent'', JInt 1)])])) =
   Inr \<lparr>wallet = JNull, user_score = 3, opp_score = 1, stake = Finite 1,
        category = JStr ''general''\<rparr> \<and>
   (\<exists>r. reply (receive_result sample_lib sample_env Missing
          (Some (JObj [(''score'', JObj [(''user'', JInt 3), (''opponent'', JInt 1)])]))) = Inr r \<and>
        winner r = ''user'')"
proof -
  let ?b = "Some (JObj [(''score'', JObj [(''user'', JInt 3), (''opponent'', JInt 1)])])"
  let ?rq = "\<lparr>wallet = JNull, user_score = 3, opp_score = 1, stake = Finite 1,
        category = JStr ''general''\<rparr>"
  have rd: "read_request sample_lib ?b = Inr ?rq"
    by (simp add: read_request_eval)
  have acc: "accepts sample_env (settlement_lines sample_env ?rq)"
    by (rule sample_env_accepts) (simp_all add: str_has_surrogate_def)
  from winner_three_way [OF rd, of sample_env Missing] acc sample_env_notice
  obtain r where "reply (receive_result sample_lib sample_env Missing ?b) = Inr r"
    and "winner r = ''user''"
    by auto
  with rd show ?thesis by blast
qed

section \<open>Failures of the store update\<close>

lemma store_update_fails:
  assumes "read_request L body = Inr rq" and "accepts E (settlement_lines E rq)"
    and "update_store L E fs (player_id_of L (wallet rq)) (user_score rq) = (fs1, Some e)"
    and "stdout E (LogFailed e) = None"
  shows "store (receive_result L E fs body) = fs1"
    and "printed (receive_result L E fs body) = settlement_lines E rq @ [LogFailed e]"
  using assms(1,3,4) print_all_accepts [OF assms(2)]
  by (simp_all add: receive_result_def Let_def)

lemma settlement_lines_write:
  "settlement_lines (E\<lparr>write_result := w\<rparr>) rq = settlement_lines E rq"
  by (simp add: settlement_lines_def Let_def)

text \<open>
  C8, as the code has it. For a request that the handler has read and whose lines
  standard output takes, the reply is a success that carries the settlement computed
  from the scores and the stake, and it is the same whatever the store file holds and
  whether or not the write goes through. An exception of the update leaves the file as
  it was and is printed; an exception of the write is printed likewise.
\<close>

theorem persistence_failures_swallowed:
  assumes "read_request L body = Inr rq" and "accepts E (settlement_lines E rq)"
    and "\<forall>e. stdout E (LogFailed e) = None"
  shows "reply (receive_result L E fs body) =
           Inr \<lparr>status = ''ok'',
                winner = (if opp_score rq < user_score rq then ''user''
                          else if user_score rq < opp_score rq then ''opponent''
                          else ''tie''),
                commission = (if user_score rq = opp_score rq then Finite 0
                              else fmul (stake rq) COMMISSION_RATE),
                net_reward = (if user_score rq = opp_score rq then Finite 0
                              else fsub (stake rq) (fmul (stake rq) COMMISSION_RATE))\<rparr> \<and>
         reply (receive_result L (E\<lparr>write_result := w\<rparr>) fs' body) =
           reply (receive_result L E fs body) \<and>
         (\<forall>e. add_score (load_scores fs) (player_id_of L (wallet rq)) (user_score rq) = Inl e \<longrightarrow>
            store (receive_result L E fs body) = fs \<and>
            printed (receive_result L E fs body) = settlement_lines E rq @ [LogFailed e]) \<and>
         (\<forall>obj e fs1.
            add_score (load_scores fs) (player_id_of L (wallet rq)) (user_score rq) = Inr obj \<longrightarrow>
            write_result E = WriteFails e fs1 \<longrightarrow>
            store (receive_result L E fs body) = fs1 \<and>
            printed (receive_result L E fs body) = settlement_lines E rq @ [LogFailed e])"
proof (intro conjI allI impI)
  have r: "reply (receive_result L E fs body) = Inr (settle rq)"
    using assms by (rule reply_answers)
  then show "reply (receive_result L E fs body) =
           Inr \<lparr>status = ''ok'',
                winner = (if opp_score rq < user_score rq then ''user''
                          else if user_score rq < opp_score rq then ''opponent''
                          else ''tie''),
                commission = (if user_score rq = opp_score rq then Finite 0
                              else fmul (stake rq) COMMISSION_RATE),
                net_reward = (if user_score rq = opp_score rq then Finite 0
                              else fsub (stake rq) (fmul (stake rq) COMMISSION_RATE))\<rparr>"
    by (auto simp add: settle_def Let_def)
  have "accepts (E\<lparr>write_result := w\<rparr>) (settlement_lines (E\<lparr>write_result := w\<rparr>) rq)"
    using assms(2) by (simp add: accepts_def settlement_lines_write)
  moreover have "\<forall>e. stdout (E\<lparr>write_result := w\<rparr>) (LogFailed e) = None"
    using assms(3) by simp
  ultimately have "reply (receive_result L (E\<lparr>write_result := w\<rparr>) fs' body) = Inr (settle rq)"
    using assms(1) by (intro reply_answers)
  with r show "reply (receive_result L (E\<lparr>write_result := w\<rparr>) fs' body) =
           reply (receive_result L E fs body)"
    by simp
next
  fix e
  assume "add_score (load_scores fs) (player_id_of L (wallet rq)) (user_score rq) = Inl e"
  then have u: "update_store L E fs (player_id_of L (wallet rq)) (user_score rq) = (fs, Some e)"
    by (simp add: update_store_def)
  from assms(3) have n: "stdout E (LogFailed e) = None" by simp
  show "store (receive_result L E fs body) = fs"
    by (rule store_update_fails(1) [OF assms(1,2) u n])
  show "printed (receive_result L E fs body) = settlement_lines E rq @ [LogFailed e]"
    by (rule store_update_fails(2) [OF assms(1,2) u n])
next
  fix obj e fs1
  assume "add_score (load_scores fs) (player_id_of L (wallet rq)) (user_score rq) = Inr obj"
    and "write_result E = WriteFails e fs1"
  then have u: "update_store L E fs (player_id_of L (wallet rq)) (user_score rq) = (fs1, Some e)"
    by (simp add: update_store_def save_scores_def)
  from assms(3) have n: "stdout E (LogFailed e) = None" by simp
  show "store (receive_result L E fs body) = fs1"
    by (rule store_update_fails(1) [OF assms(1,2) u n])
  show "printed (receive_result L E fs body) = settlement_lines E rq @ [LogFailed e]"
    by (rule store_update_fails(2) [OF assms(1,2) u n])
qed

text \<open>
  A win at the default stake, sent for a player whose stored score is a string: the
  update raises \<open>TypeError\<close>, the file is left as it was, the exception is printed, and
  the reply is the one given when the file is missing.
\<close>

theorem persistence_failures_swallowed_witness:
  "reply (receive_result sample_lib sample_env (Doc (JObj [(''a'', JStr ''x'')]))
     (Some (JObj [(''wallet'', JObj [(''address'', JStr ''a'')]),
                  (''score'', JObj [(''user'', JInt 3), (''opponent'', JInt 1)])]))) =
     Inr \<lparr>status = ''ok'', winner = ''user'',
          commission = fmul (Finite 1) COMMISSION_RATE,
          net_reward = fsub (Finite 1) (fmul (Finite 1) COMMISSION_RATE)\<rparr> \<and>
   reply (receive_result sample_lib (sample_env\<lparr>write_result := WriteFails OSError Corrupt\<rparr>)
     Missing
     (Some (JObj [(''wallet'', JObj [(''address'', JStr ''a'')]),
                  (''score'', JObj [(''user'', JInt 3), (''opponent'', JInt 1)])]))) =
   reply (receive_result sample_lib sample_env (Doc (JObj [(''a'', JStr ''x'')]))
     (Some (JObj [(''wallet'', JObj [(''address'', JStr ''a'')]),
                  (''score'', JObj [(''user'', JInt 3), (''opponent'', JInt 1)])]))) \<and>
   add_score (load_scores (Doc (JObj [(''a'', JStr ''x'')]))) (JStr ''a'') 3 = Inl TypeError \<and>
   store (receive_result sample_lib sample_env (Doc (JObj [(''a'', JStr ''x'')]))
     (Some (JObj [(''wallet'', JObj [(''address'', JStr ''a'')]),
                  (''score'', JObj [(''user'', JInt 3), (''opponent'', JInt 1)])]))) =
     Doc (JObj [(''a'', JStr ''x'')]) \<and>
   LogFailed TypeError \<in> set (printed (receive_result sample_lib sample_env
     (Doc (JObj [(''a'', JStr ''x'')]))
     (Some (JObj [(''wallet'', JObj [(''address'', JStr ''a'')]),
                  (''score'', JObj [(''user'', JInt 3), (''opponent'', JInt 1)])]))))"
proof -
  let ?b = "Some (JObj [(''wallet'', JObj [(''address'', JStr ''a'')]),
                  (''score'', JObj [(''user'', JInt 3), (''opponent'', JInt 1)])])"
  let ?fs = "Doc (JObj [(''a'', JStr ''x'')])"
  let ?rq = "\<lparr>wallet = JObj [(''address'', JStr ''a'')], user_score = 3, opp_score = 1,
          stake = Finite 1, category = JStr ''general''\<rparr>"
  have rd: "read_request sample_lib ?b = Inr ?rq"
    by (simp add: read_request_eval)
  have acc: "accepts sample_env (settlement_lines sample_env ?rq)"
    by (rule sample_env_accepts) (simp_all add: str_has_surrogate_def)
  have nf: "\<forall>e. stdout sample_env (LogFailed e) = None"
    by (simp add: sample_env_notice)
  have pid: "player_id_of sample_lib (JObj [(''address'', JStr ''a'')]) = JStr ''a''"
    by (simp add: player_id_of_def dict_get_def py_or_def)
  have upd: "add_score (load_scores ?fs) (JStr ''a'') 3 = Inl TypeError"
    by (simp add: add_score_def load_scores_def read_json_def)
  from persistence_failures_swallowed [OF rd acc nf, of ?fs "WriteFails OSError Corrupt" Missing]
    pid upd
  show ?thesis by simp
qed

text \<open>
  Not every input gets a success: a stake of \<open>null\<close> makes \<open>float\<close> raise
  \<open>TypeError\<close>, which leaves the handler.
\<close>

theorem no_success_counterexample:
  "reply (receive_result sample_lib sample_env Missing (Some (JObj [(''stake'', JNull)]))) =
     Inl TypeError"
  by (simp add: receive_result_def read_request_eval)

section \<open>What the reply depends on\<close>





section \<open>Input that is missing or of another type\<close>

lemma read_defaults:
  assumes "request_data body = JObj kvs"
    and "map_of kvs ''score'' = None \<and> sc = [] \<or> map_of kvs ''score'' = Some (JObj sc)"
    and "map_of sc ''user'' = None \<and> u = 0 \<or> map_of sc ''user'' = Some (JInt u)"
    and "map_of sc ''opponent'' = None \<and> opp = 0 \<or> map_of sc ''opponent'' = Some (JInt opp)"
    and "map_of kvs ''stake'' = None \<and> s = Finite 1 \<or> map_of kvs ''stake'' = Some (JFloat s)"
  shows "read_request L body =
           Inr \<lparr>wallet = (case map_of kvs ''wallet'' of None \<Rightarrow> JNull | Some w \<Rightarrow> w),
                user_score = u, opp_score = opp, stake = s,
                category = (case map_of kvs ''category'' of
                              None \<Rightarrow> JStr ''general'' | Some c \<Rightarrow> c)\<rparr>"
  using assms
  by (auto simp add: read_request_def py_get_def dict_get_def and_then_def)

lemma read_not_object:
  "\<forall>kvs. request_data body \<noteq> JObj kvs \<Longrightarrow> read_request L body = Inl AttributeError"
  by (cases "request_data body") (simp_all add: read_request_def py_get_def and_then_def)

lemma read_score_not_object:
  assumes "request_data body = JObj kvs" and "map_of kvs ''score'' = Some v"
    and "\<forall>sc. v \<noteq> JObj sc"
  shows "read_request L body = Inl AttributeError"
  using assms
  by (cases v) (simp_all add: read_request_def py_get_def dict_get_def and_then_def)

lemma read_user_raises:
  assumes "request_data body = JObj kvs" and "dict_get kvs ''score'' (JObj []) = JObj sc"
    and "map_of sc ''user'' = Some v" and "py_int L v = Inl e"
  shows "read_request L body = Inl e"
  using assms
  by (simp add: read_request_def py_get_def dict_get_def and_then_def)

lemma read_opponent_raises:
  assumes "request_data body = JObj kvs" and "dict_get kvs ''score'' (JObj []) = JObj sc"
    and "py_int L (dict_get sc ''user'' (JInt 0)) = Inr u"
    and "map_of sc ''opponent'' = Some v" and "py_int L v = Inl e"
  shows "read_request L body = Inl e"
  using assms
  by (simp add: read_request_def py_get_def dict_get_def and_then_def)

lemma read_stake_raises:
  assumes "request_data body = JObj kvs" and "dict_get kvs ''score'' (JObj []) = JObj sc"
    and "py_int L (dict_get sc ''user'' (JInt 0)) = Inr u"
    and "py_int L (dict_get sc ''opponent'' (JInt 0)) = Inr opp"
    and "map_of kvs ''stake'' = Some v" and "py_float L v = Inl e"
  shows "read_request L body = Inl e"
  using assms
  by (simp add: read_request_def py_get_def dict_get_def and_then_def)

lemma unconvertible:
  "py_int L JNull = Inl TypeError" "py_int L (JList xs) = Inl TypeError"
  "py_int L (JObj kvs) = Inl TypeError" "py_int L (JFloat NaN) = Inl ValueError"
  "py_int L (JFloat PosInf) = Inl OverflowError" "py_int L (JFloat NegInf) = Inl OverflowError"
  "int_of_str L s = None \<Longrightarrow> py_int L (JStr s) = Inl ValueError"
  "py_float L JNull = Inl TypeError" "py_float L (JList xs) = Inl TypeError"
  "py_float L (JObj kvs) = Inl TypeError"
  "float_of_str L s = None \<Longrightarrow> py_float L (JStr s) = Inl ValueError"
  by (simp_all add: int_of_float_def)

text \<open>
  C5, as the code has it. A body that is absent or falsy counts as the empty object.
  In a body that is an object, a missing score counts as the empty object, a missing
  user or opponent score as 0, a missing stake as 1.0 and a missing category as
  "general"; where the score is an object, the scores present are integers and the
  stake present is a float, the request is read with these values. A request that is
  read is answered with success when standard output takes its lines. An exception
  while reading leaves the handler: \<open>AttributeError\<close> for a body or a score that is
  not an object, and the exception of \<open>int\<close> or \<open>float\<close> for a score or a stake they
  do not convert, as \<open>null\<close>, a list, an object, a string they do not parse, and for
  \<open>int\<close> a float that is infinite or not a number.
\<close>

theorem missing_fields_default:
  "request_data None = JObj [] \<and>
   (\<forall>j. \<not> truthy j \<longrightarrow> request_data (Some j) = JObj []) \<and>
   (\<forall>kvs sc u opp s.
      request_data body = JObj kvs \<longrightarrow>
      (map_of kvs ''score'' = None \<and> sc = [] \<or> map_of kvs ''score'' = Some (JObj sc)) \<longrightarrow>
      (map_of sc ''user'' = None \<and> u = 0 \<or> map_of sc ''user'' = Some (JInt u)) \<longrightarrow>
      (map_of sc ''opponent'' = None \<and> opp = 0 \<or> map_of sc ''opponent'' = Some (JInt opp)) \<longrightarrow>
      (map_of kvs ''stake'' = None \<and> s = Finite 1 \<or> map_of kvs ''stake'' = Some (JFloat s)) \<longrightarrow>
      read_request L body =
        Inr \<lparr>wallet = (case map_of kvs ''wallet'' of None \<Rightarrow> JNull | Some w \<Rightarrow> w),
             user_score = u, opp_score = opp, stake = s,
             category = (case map_of kvs ''category'' of
                           None \<Rightarrow> JStr ''general'' | Some c \<Rightarrow> c)\<rparr>) \<and>
   (\<forall>rq. read_request L body = Inr rq \<longrightarrow> accepts E (settlement_lines E rq) \<longrightarrow>
      (\<forall>e. stdout E (LogFailed e) = None) \<longrightarrow>
      (\<exists>r. reply (receive_result L E fs body) = Inr r \<and> status r = ''ok'')) \<and>
   (\<forall>e. read_request L body = Inl e \<longrightarrow> reply (receive_result L E fs body) = Inl e) \<and>
   ((\<forall>kvs. request_data body \<noteq> JObj kvs) \<longrightarrow> read_request L body = Inl AttributeError) \<and>
   (\<forall>kvs v. request_data body = JObj kvs \<longrightarrow> map_of kvs ''score'' = Some v \<longrightarrow>
      (\<forall>sc. v \<noteq> JObj sc) \<longrightarrow> read_request L body = Inl AttributeError) \<and>
   (\<forall>kvs sc v e. request_data body = JObj kvs \<longrightarrow>
      dict_get kvs ''score'' (JObj []) = JObj sc \<longrightarrow>
      map_of sc ''user'' = Some v \<longrightarrow> py_int L v = Inl e \<longrightarrow> read_request L body = Inl e) \<and>
   (\<forall>kvs sc u v e. request_data body = JObj kvs \<longrightarrow>
      dict_get kvs ''score'' (JObj []) = JObj sc \<longrightarrow>
      py_int L (dict_get sc ''user'' (JInt 0)) = Inr u \<longrightarrow>
      map_of sc ''opponent'' = Some v \<longrightarrow> py_int L v = Inl e \<longrightarrow> read_request L body = Inl e) \<and>
   (\<forall>kvs sc u opp v e. request_data body = JObj kvs \<longrightarrow>
      dict_get kvs ''score'' (JObj []) = JObj sc \<longrightarrow>
      py_int L (dict_get sc ''user'' (JInt 0)) = Inr u \<longrightarrow>
      py_int L (dict_get sc ''opponent'' (JInt 0)) = Inr opp \<longrightarrow>
      map_of kvs ''stake'' = Some v \<longrightarrow> py_float L v = Inl e \<longrightarrow> read_request L body = Inl e) \<and>
   py_int L JNull = Inl TypeError \<and> py_float L JNull = Inl TypeError \<and>
   (\<forall>xs. py_int L (JList xs) = Inl TypeError \<and> py_float L (JList xs) = Inl TypeError) \<and>
   (\<forall>kvs. py_int L (JObj kvs) = Inl TypeError \<and> py_float L (JObj kvs) = Inl TypeError) \<and>
   (\<forall>s. int_of_str L s = None \<longrightarrow> py_int L (JStr s) = Inl ValueError) \<and>
   (\<forall>s. float_of_str L s = None \<longrightarrow> py_float L (JStr s) = Inl ValueError) \<and>
   py_int L (JFloat NaN) = Inl ValueError \<and>
   py_int L (JFloat PosInf) = Inl OverflowError \<and>
   py_int L (JFloat NegInf) = Inl OverflowError"
proof -
  have answered: "\<exists>r. reply (receive_result L E fs body) = Inr r \<and> status r = ''ok''"
    if "read_request L body = Inr rq" "accepts E (settlement_lines E rq)"
      "\<forall>e. stdout E (LogFailed e) = None" for rq
    using reply_answers [OF that] by (simp add: settle_def Let_def)
  show ?thesis
    apply (intro conjI allI impI)
    subgoal by (simp add: request_data_def)
    subgoal by (simp add: request_data_def)
    subgoal by (rule read_defaults)
    subgoal by (rule answered)
    subgoal by (rule reply_Inl)
    subgoal by (rule read_not_object)
    subgoal by (rule read_score_not_object)
    subgoal by (rule read_user_raises)
    subgoal by (rule read_opponent_raises)
    subgoal by (rule read_stake_raises)
    by (simp_all add: int_of_float_def)
qed

text \<open>
  No body at all is answered with the defaults; a score that is a list is not.
\<close>

theorem missing_fields_default_witness:
  "request_data None = JObj [] \<and>
   read_request sample_lib None =
     Inr \<lparr>wallet = JNull, user_score = 0, opp_score = 0, stake = Finite 1,
          category = JStr ''general''\<rparr> \<and>
   (\<exists>r. reply (receive_result sample_lib sample_env Missing None) = Inr r \<and> status r = ''ok'') \<and>
   read_request sample_lib (Some (JObj [(''score'', JList [JInt 1])])) = Inl AttributeError \<and>
   reply (receive_result sample_lib sample_env Missing
     (Some (JObj [(''score'', JList [JInt 1])]))) = Inl AttributeError"
proof -
  let ?rq = "\<lparr>wallet = JNull, user_score = 0, opp_score = 0, stake = Finite 1,
          category = JStr ''general''\<rparr>"
  let ?b = "Some (JObj [(''score'', JList [JInt 1])])"
  note m = missing_fields_default [of None sample_lib sample_env Missing]
  note m3 = m [THEN conjunct2, THEN conjunct2, THEN conjunct1, rule_format]
  note m4 = m [THEN conjunct2, THEN conjunct2, THEN conjunct2, THEN conjunct1, rule_format]
  have d: "request_data None = JObj []" by (simp add: request_data_def)
  have rd: "read_request sample_lib None = Inr ?rq"
    using m3 [OF d, of "[]" 0 0 "Finite 1"] by simp
  have acc: "accepts sample_env (settlement_lines sample_env ?rq)"
    by (rule sample_env_accepts) (simp_all add: str_has_surrogate_def)
  have ok: "\<exists>r. reply (receive_result sample_lib sample_env Missing None) = Inr r \<and>
     status r = ''ok''"
    by (rule m4 [OF rd acc]) (simp add: sample_env_notice)
  note m' = missing_fields_default [of ?b sample_lib sample_env Missing]
  note m5 = m' [THEN conjunct2, THEN conjunct2, THEN conjunct2, THEN conjunct2,
                THEN conjunct1, rule_format]
  note m7 = m' [THEN conjunct2, THEN conjunct2, THEN conjunct2, THEN conjunct2,
                THEN conjunct2, THEN conjunct2, THEN conjunct1, rule_format]
  have d2: "request_data ?b = JObj [(''score'', JList [JInt 1])]"
    by (simp add: request_data_def)
  have e: "read_request sample_lib ?b = Inl AttributeError"
    using m7 [OF d2, of "JList [JInt 1]"] by simp
  have "reply (receive_result sample_lib sample_env Missing ?b) = Inl AttributeError"
    by (rule m5 [OF e])
  with d rd ok e show ?thesis by blast
qed

text \<open>
  A field of another type is not always coerced: a user score of \<open>null\<close> makes
  \<open>int\<close> raise \<open>TypeError\<close>, which nothing catches.
\<close>

theorem wrong_type_counterexample:
  "reply (receive_result sample_lib sample_env Missing
     (Some (JObj [(''score'', JObj [(''user'', JNull)])]))) = Inl TypeError"
  by (simp add: receive_result_def read_request_eval)

section \<open>The cumulative score\<close>

lemma update_fresh: "k \<notin> fst ` set acc \<Longrightarrow> AList.update k v acc = acc @ [(k, v)]"
  by (induction acc) auto

lemma fold_update_distinct:
  "distinct (map fst kvs) \<Longrightarrow> fst ` set acc \<inter> fst ` set kvs = {} \<Longrightarrow>
   fold (\<lambda>(k, v) acc. AList.update (json_key L k) v acc) (map (\<lambda>(s, v). (KStr s, v)) kvs) acc =
     acc @ kvs"
proof (induction kvs arbitrary: acc)
  case Nil
  then show ?case by simp
next
  case (Cons x kvs)
  obtain s v where x: "x = (s, v)" by (cases x)
  from Cons.prems x have fresh: "s \<notin> fst ` set acc" by auto
  from Cons.prems x have "distinct (map fst kvs)"
    and "fst ` set (acc @ [(s, v)]) \<inter> fst ` set kvs = {}"
    by auto
  from Cons.IH [OF this] show ?case
    by (simp add: x update_fresh [OF fresh])
qed

lemma dumped_dict:
  "distinct (map fst kvs) \<Longrightarrow> dumped L (SDict (map (\<lambda>(s, v). (KStr s, v)) kvs)) = JObj kvs"
  using fold_update_distinct [of kvs "[]" L] by (simp add: dumped_def)

lemma map_update_KStr:
  "map (\<lambda>(s, v). (KStr s, v)) (AList.update p x kvs) =
   AList.update (KStr p) x (map (\<lambda>(s, v). (KStr s, v)) kvs)"
  by (induction kvs) auto

lemma map_of_KStr:
  "map_of (map (\<lambda>(s, v). (KStr s, v)) kvs) (KStr p) = map_of kvs p"
  by (induction kvs) auto

lemma keys_KStr:
  "KStr p \<in> fst ` set (map (\<lambda>(s, v). (KStr s, v)) kvs) \<longleftrightarrow> p \<in> fst ` set kvs"
  by (induction kvs) auto

lemma add_score_dict:
  assumes "map_of kvs p = None \<or> (\<exists>v. map_of kvs p = Some (JInt v))"
  shows "add_score (JObj kvs) (JStr p) n =
           Inr (SDict (map (\<lambda>(s, v). (KStr s, v)) (AList.update p (JInt (stored kvs p + n)) kvs)))"
proof (cases "map_of kvs p")
  case None
  then have "p \<notin> fst ` set kvs" by (simp add: map_of_eq_None_iff)
  with None show ?thesis
    by (simp add: add_score_def Let_def keys_KStr map_update_KStr stored_def
        AList.update_conv' del: set_map)
next
  case (Some a)
  with assms obtain v where v: "map_of kvs p = Some (JInt v)" by auto
  then have "p \<in> fst ` set kvs" by (metis map_of_eq_None_iff option.distinct(1))
  with v show ?thesis
    by (simp add: add_score_def Let_def keys_KStr map_update_KStr stored_def map_of_KStr
        del: set_map)
qed


lemma update_store_dict:
  assumes "load_scores fs = JObj kvs" and "distinct (map fst kvs)"
    and "map_of kvs p = None \<or> (\<exists>v. map_of kvs p = Some (JInt v))"
    and "write_result E = Written"
  shows "update_store L E fs (JStr p) n =
           (Doc (JObj (AList.update p (JInt (stored kvs p + n)) kvs)), None)"
proof -
  have d: "distinct (map fst (AList.update p (JInt (stored kvs p + n)) kvs))"
    using assms(2) by (rule distinct_update)
  show ?thesis
    using assms(1,4) add_score_dict [OF assms(3), of n] dumped_dict [OF d, of L]
    by (simp add: update_store_def save_scores_def)
qed

lemma store_when_answered:
  assumes "read_request L body = Inr rq" and "reply (receive_result L E fs body) = Inr r"
    and "update_store L E fs (player_id_of L (wallet rq)) (user_score rq) = (fs', x)"
  shows "store (receive_result L E fs body) = fs'"
  using assms
  by (auto simp add: receive_result_def Let_def split: prod.splits option.splits)

text \<open>
  C3, as the code has it. For a request that is answered with success, when the store
  loads as a mapping, the player identifier is a string for which the mapping holds
  an integer or nothing, and the write goes through, the file then holds a mapping in
  which the player's score is the previous one (0 if there was none) plus the user
  score of the request, whoever won, and every other entry is as before. The score
  does not decrease if the user score is not negative.
\<close>

theorem score_accumulates:
  assumes "read_request L body = Inr rq" and "reply (receive_result L E fs body) = Inr r"
    and "player_id_of L (wallet rq) = JStr p"
    and "load_scores fs = JObj kvs" and "distinct (map fst kvs)"
    and "map_of kvs p = None \<or> (\<exists>v. map_of kvs p = Some (JInt v))"
    and "write_result E = Written"
  shows "\<exists>kvs'. store (receive_result L E fs body) = Doc (JObj kvs') \<and>
           distinct (map fst kvs') \<and>
           map_of kvs' p = Some (JInt (stored kvs p + user_score rq)) \<and>
           stored kvs' p = stored kvs p + user_score rq \<and>
           (\<forall>q. q \<noteq> p \<longrightarrow> map_of kvs' q = map_of kvs q) \<and>
           (0 \<le> user_score rq \<longrightarrow> stored kvs p \<le> stored kvs' p)"
proof -
  let ?kvs = "AList.update p (JInt (stored kvs p + user_score rq)) kvs"
  have d: "distinct (map fst ?kvs)"
    using assms(5) by (rule distinct_update)
  have "update_store L E fs (player_id_of L (wallet rq)) (user_score rq) =
          (Doc (JObj ?kvs), None)"
    using update_store_dict [OF assms(4-7)] assms(3) by simp
  with assms(1,2) have "store (receive_result L E fs body) = Doc (JObj ?kvs)"
    by (rule store_when_answered)
  moreover have "map_of ?kvs p = Some (JInt (stored kvs p + user_score rq))"
    by (simp add: AList.update_conv')
  moreover have "stored ?kvs p = stored kvs p + user_score rq"
    by (simp add: stored_def AList.update_conv')
  moreover have "\<forall>q. q \<noteq> p \<longrightarrow> map_of ?kvs q = map_of kvs q"
    by (simp add: AList.update_conv')
  ultimately show ?thesis using d by auto
qed

lemmas store_eval =
  receive_result_def read_request_eval settlement_lines_def settle_def utf8_stdout_def
  str_has_surrogate_def update_store_def player_id_of_def py_or_def add_score_def
  load_scores_def read_json_def save_scores_def dumped_def sample_env_def
  OWNER_WALLET_def Let_def

text \<open>
  From a missing file, a lost match with user score 3 and then a tie with user score 5
  leave the player with 8.
\<close>

theorem score_accumulates_witness:
  "store (receive_result sample_lib sample_env Missing
     (Some (JObj [(''wallet'', JObj [(''address'', JStr ''a'')]),
                  (''score'', JObj [(''user'', JInt 3), (''opponent'', JInt 5)])]))) =
     Doc (JObj [(''a'', JInt 3)]) \<and>
   store (receive_result sample_lib sample_env (Doc (JObj [(''a'', JInt 3)]))
     (Some (JObj [(''wallet'', JObj [(''address'', JStr ''a'')]),
                  (''score'', JObj [(''user'', JInt 5), (''opponent'', JInt 5)])]))) =
     Doc (JObj [(''a'', JInt 8)]) \<and>
   stored [(''a'', JInt 8)] ''a'' = stored [(''a'', JInt 3)] ''a'' + 5"
proof -
  let ?b3 = "Some (JObj [(''wallet'', JObj [(''address'', JStr ''a'')]),
                  (''score'', JObj [(''user'', JInt 3), (''opponent'', JInt 5)])])"
  let ?b5 = "Some (JObj [(''wallet'', JObj [(''address'', JStr ''a'')]),
                  (''score'', JObj [(''user'', JInt 5), (''opponent'', JInt 5)])])"
  let ?r3 = "\<lparr>wallet = JObj [(''address'', JStr ''a'')], user_score = 3, opp_score = 5,
          stake = Finite 1, category = JStr ''general''\<rparr>"
  let ?r5 = "\<lparr>wallet = JObj [(''address'', JStr ''a'')], user_score = 5, opp_score = 5,
          stake = Finite 1, category = JStr ''general''\<rparr>"
  have rd3: "read_request sample_lib ?b3 = Inr ?r3" by (simp add: read_request_eval)
  have rd5: "read_request sample_lib ?b5 = Inr ?r5" by (simp add: read_request_eval)
  have a3: "accepts sample_env (settlement_lines sample_env ?r3)"
    by (rule sample_env_accepts) (simp_all add: str_has_surrogate_def)
  have a5: "accepts sample_env (settlement_lines sample_env ?r5)"
    by (rule sample_env_accepts) (simp_all add: str_has_surrogate_def)
  have nf: "\<forall>e. stdout sample_env (LogFailed e) = None" by (simp add: sample_env_notice)
  have ok3: "reply (receive_result sample_lib sample_env Missing ?b3) = Inr (settle ?r3)"
    using rd3 a3 nf by (rule reply_answers)
  have ok5: "reply (receive_result sample_lib sample_env (Doc (JObj [(''a'', JInt 3)])) ?b5) =
      Inr (settle ?r5)"
    using rd5 a5 nf by (rule reply_answers)
  have pid: "player_id_of sample_lib (JObj [(''address'', JStr ''a'')]) = JStr ''a''"
    by (simp add: player_id_of_def dict_get_def py_or_def)
  have wr: "write_result sample_env = Written" by (simp add: sample_env_def)
  have ld0: "load_scores Missing = JObj []" by (simp add: load_scores_def read_json_def)
  have ld3: "load_scores (Doc (JObj [(''a'', JInt 3)])) = JObj [(''a'', JInt 3)]"
    by (simp add: load_scores_def read_json_def)
  have u3: "update_store sample_lib sample_env Missing
      (player_id_of sample_lib (wallet ?r3)) (user_score ?r3) =
      (Doc (JObj [(''a'', JInt 3)]), None)"
    using update_store_dict [OF ld0 _ _ wr, of "''a''" sample_lib 3] pid
    by (simp add: stored_def)
  have h1: "store (receive_result sample_lib sample_env Missing ?b3) = Doc (JObj [(''a'', JInt 3)])"
    by (rule store_when_answered [OF rd3 ok3 u3])
  have u5: "update_store sample_lib sample_env (Doc (JObj [(''a'', JInt 3)]))
      (player_id_of sample_lib (wallet ?r5)) (user_score ?r5) =
      (Doc (JObj [(''a'', JInt 8)]), None)"
    using update_store_dict [OF ld3 _ _ wr, of "''a''" sample_lib 5] pid
    by (simp add: stored_def)
  have h2: "store (receive_result sample_lib sample_env (Doc (JObj [(''a'', JInt 3)])) ?b5) =
      Doc (JObj [(''a'', JInt 8)])"
    by (rule store_when_answered [OF rd5 ok5 u5])
  from score_accumulates [OF rd5 ok5 _ ld3 _ _ wr, of "''a''"] pid
  obtain k5 where "store (receive_result sample_lib sample_env (Doc (JObj [(''a'', JInt 3)])) ?b5) =
      Doc (JObj k5)" and "stored k5 ''a'' = stored [(''a'', JInt 3)] ''a'' + 5"
    by auto
  with h2 have "stored [(''a'', JInt 8)] ''a'' = stored [(''a'', JInt 3)] ''a'' + 5"
    by simp
  with h1 h2 show ?thesis by simp
qed

text \<open>
  Five requests that are answered with success (ties, so nothing is owed). A negative
  user score lowers the stored score, from 10 to 7. A write that fails leaves the
  stored 10 as it was. So does a stored value that is not a number, and a file that
  holds a list is left as it was. An identifier that is not a string, here \<open>true\<close>,
  is written under the key "true" after the entry that the file had under it, and the
  10 stored there is replaced by 3.
\<close>

theorem score_decreases_counterexample:
  "receive_result sample_lib sample_env (Doc (JObj [(''a'', JInt 10)]))
     (Some (JObj [(''wallet'', JObj [(''address'', JStr ''a'')]),
                  (''score'', JObj [(''user'', JInt (- 3)), (''opponent'', JInt (- 3))])])) =
     \<lparr>reply = Inr \<lparr>status = ''ok'', winner = ''tie'', commission = Finite 0,
                    net_reward = Finite 0\<rparr>,
      store = Doc (JObj [(''a'', JInt 7)]),
      printed = [LogReceived (JObj [(''address'', JStr ''a'')]) (JStr ''general''),
                 LogScore (- 3) (- 3) ''tie'', LogStake (Finite 1) (Finite 0) (Finite 0)]\<rparr> \<and>
   receive_result sample_lib
     (sample_env\<lparr>write_result := WriteFails OSError (Doc (JObj [(''a'', JInt 10)]))\<rparr>)
     (Doc (JObj [(''a'', JInt 10)]))
     (Some (JObj [(''wallet'', JObj [(''address'', JStr ''a'')]),
                  (''score'', JObj [(''user'', JInt 3), (''opponent'', JInt 3)])])) =
     \<lparr>reply = Inr \<lparr>status = ''ok'', winner = ''tie'', commission = Finite 0,
                    net_reward = Finite 0\<rparr>,
      store = Doc (JObj [(''a'', JInt 10)]),
      printed = [LogReceived (JObj [(''address'', JStr ''a'')]) (JStr ''general''),
                 LogScore 3 3 ''tie'', LogStake (Finite 1) (Finite 0) (Finite 0),
                 LogFailed OSError]\<rparr> \<and>
   receive_result sample_lib sample_env (Doc (JObj [(''a'', JStr ''x'')]))
     (Some (JObj [(''wallet'', JObj [(''address'', JStr ''a'')]),
                  (''score'', JObj [(''user'', JInt 3), (''opponent'', JInt 3)])])) =
     \<lparr>reply = Inr \<lparr>status = ''ok'', winner = ''tie'', commission = Finite 0,
                    net_reward = Finite 0\<rparr>,
      store = Doc (JObj [(''a'', JStr ''x'')]),
      printed = [LogReceived (JObj [(''address'', JStr ''a'')]) (JStr ''general''),
                 LogScore 3 3 ''tie'', LogStake (Finite 1) (Finite 0) (Finite 0),
                 LogFailed TypeError]\<rparr> \<and>
   receive_result sample_lib sample_env (Doc (JList []))
     (Some (JObj [(''wallet'', JObj [(''address'', JStr ''a'')]),
                  (''score'', JObj [(''user'', JInt 3), (''opponent'', JInt 3)])])) =
     \<lparr>reply = Inr \<lparr>status = ''ok'', winner = ''tie'', commission = Finite 0,
                    net_reward = Finite 0\<rparr>,
      store = Doc (JList []),
      printed = [LogReceived (JObj [(''address'', JStr ''a'')]) (JStr ''general''),
                 LogScore 3 3 ''tie'', LogStake (Finite 1) (Finite 0) (Finite 0),
                 LogFailed TypeError]\<rparr> \<and>
   receive_result sample_lib sample_env (Doc (JObj [(''true'', JInt 10)]))
     (Some (JObj [(''wallet'', JObj [(''address'', JBool True)]),
                  (''score'', JObj [(''user'', JInt 3), (''opponent'', JInt 3)])])) =
     \<lparr>reply = Inr \<lparr>status = ''ok'', winner = ''tie'', commission = Finite 0,
                    net_reward = Finite 0\<rparr>,
      store = Doc (JObj [(''true'', JInt 3)]),
      printed = [LogReceived (JObj [(''address'', JBool True)]) (JStr ''general''),
                 LogScore 3 3 ''tie'', LogStake (Finite 1) (Finite 0) (Finite 0)]\<rparr>"
  by (simp add: store_eval list_index_def)

section \<open>Rounding to a double\<close>










section \<open>The commission\<close>







end
